theory Spec2Isabelle
  imports Main
begin

section \<open>The Daikin cloud login proxy (lib/proxy.js)\<close>

text \<open>
  The class \<open>DaikinCloudProxy\<close> is embedded as a record of its fields and one function per
  method or registered handler. Every function takes the session and returns the session
  it leaves behind. The collaborators of the class are not part of the file: the OIDC
  client (\<open>openid-client\<close>) is a record of functions handed to the model, the random
  generators are arguments, and the two listeners answer a bind request with an outcome
  that is an argument of \<open>startServer\<close>.
\<close>

subsection \<open>JavaScript values\<close>

text \<open>
  An error object: \<open>new Error(msg)\<close> of the file itself, or an error of a collaborator
  (which may carry a \<open>code\<close>). The file never reads the stack of an error it created, so
  \<open>new_Error\<close> leaves it out. The message of a \<open>TypeError\<close> the engine raises is given
  without the property it names.
\<close>

record js_err =
  err_name :: string
  err_message :: string
  err_code :: "string option"
  err_stack :: "string option"

definition new_Error :: "string \<Rightarrow> js_err" where
  "new_Error msg = \<lparr>err_name = ''Error'', err_message = msg, err_code = None, err_stack = None\<rparr>"

definition new_TypeError :: "string \<Rightarrow> js_err" where
  "new_TypeError msg =
     \<lparr>err_name = ''TypeError'', err_message = msg, err_code = None, err_stack = None\<rparr>"

text \<open>\<open>String(v)\<close> of a string that may be \<open>undefined\<close>, as \<open>+\<close> applies it.\<close>

definition jsstr :: "string option \<Rightarrow> string" where
  "jsstr v = (case v of None \<Rightarrow> ''undefined'' | Some s \<Rightarrow> s)"

text \<open>Truthiness of a string that may be \<open>undefined\<close>: the empty string is falsy.\<close>

definition truthy :: "string option \<Rightarrow> bool" where
  "truthy v = (case v of None \<Rightarrow> False | Some s \<Rightarrow> s \<noteq> [])"

text \<open>\<open>Error.prototype.toString\<close>, which \<open>'...' + err\<close> calls.\<close>

definition err_toString :: "js_err \<Rightarrow> string" where
  "err_toString e =
     (if err_message e = [] then err_name e
      else if err_name e = [] then err_message e
      else err_name e @ '': '' @ err_message e)"

text \<open>\<open>String.prototype.startsWith\<close> and \<open>String.prototype.includes\<close>.\<close>

fun startsWith :: "string \<Rightarrow> string \<Rightarrow> bool" where
  "startsWith s [] = True"
| "startsWith [] (c # cs) = False"
| "startsWith (x # xs) (c # cs) = (x = c \<and> startsWith xs cs)"

fun str_includes :: "string \<Rightarrow> string \<Rightarrow> bool" where
  "str_includes [] sub = (sub = [])"
| "str_includes (x # xs) sub = (startsWith (x # xs) sub \<or> str_includes xs sub)"

text \<open>
  A token set of the OIDC client, as far as the file looks at it: its JSON text, and the
  JSON text of \<open>claims()\<close>, which throws when the set has no ID token (\<open>None\<close>).
\<close>

record token_set =
  ts_json :: string
  ts_claims :: "string option"

text \<open>What a promise of the file is resolved with.\<close>

datatype js_value = Undefined | JTrue | TokenSet token_set

datatype promise_state = Pending | Fulfilled js_value | Rejected js_err

text \<open>
  A call of \<open>startServer\<close> or \<open>stopServer\<close> either throws before it returns, or returns a
  promise, given here by the state that promise reaches (\<open>Pending\<close>: it never settles).
\<close>

datatype call_result = Threw js_err | Returned promise_state

subsection \<open>The pending-state store\<close>

text \<open>
  \<open>this.openIdStore = {}\<close> is a plain object used as a dictionary. Reading
  \<open>this.openIdStore[key]\<close> follows the prototype chain, so besides the entries the file
  wrote (\<open>own\<close>) a read finds the properties every object inherits from
  \<open>Object.prototype\<close>; and writing the key \<open>__proto__\<close> replaces the prototype
  (\<open>proto\<close>) instead of adding an entry.
\<close>

record pending_authorization =
  code_verifier :: string

record store =
  own :: "string \<Rightarrow> pending_authorization option"
  proto :: "pending_authorization option"

definition empty_store :: store where
  "empty_store = \<lparr>own = (\<lambda>k. None), proto = None\<rparr>"

definition Object_prototype_keys :: "string list" where
  "Object_prototype_keys =
     [''constructor'', ''__defineGetter__'', ''__defineSetter__'', ''hasOwnProperty'',
      ''__lookupGetter__'', ''__lookupSetter__'', ''isPrototypeOf'', ''propertyIsEnumerable'',
      ''toString'', ''valueOf'', ''__proto__'', ''toLocaleString'']"

text \<open>
  The value a read yields: \<open>Absent\<close> is a falsy value (\<open>undefined\<close> or the empty
  string), \<open>Entry\<close> an object the file stored, \<open>Inherited\<close> a truthy value that has no
  \<open>code_verifier\<close> property (a function of \<open>Object.prototype\<close>, that prototype itself,
  or a non-empty string).
\<close>

datatype slot = Absent | Entry pending_authorization | Inherited

definition store_get :: "store \<Rightarrow> string \<Rightarrow> slot" where
  "store_get st k =
     (if k = ''__proto__'' then (case proto st of Some e \<Rightarrow> Entry e | None \<Rightarrow> Inherited)
      else case own st k of
             Some e \<Rightarrow> Entry e
           | None \<Rightarrow>
               if k \<in> set Object_prototype_keys then Inherited
               else if k = ''code_verifier'' then
                 (case proto st of
                    Some e \<Rightarrow> if code_verifier e \<noteq> [] then Inherited else Absent
                  | None \<Rightarrow> Absent)
               else Absent)"

definition store_set :: "store \<Rightarrow> string \<Rightarrow> pending_authorization \<Rightarrow> store" where
  "store_set st k e =
     (if k = ''__proto__'' then st\<lparr>proto := Some e\<rparr> else st\<lparr>own := (own st)(k \<mapsto> e)\<rparr>)"

text \<open>\<open>slot.code_verifier\<close>: \<open>undefined\<close> unless the slot is an entry of the file.\<close>

definition slot_verifier :: "slot \<Rightarrow> string option" where
  "slot_verifier sl = (case sl of Entry e \<Rightarrow> Some (code_verifier e) | _ \<Rightarrow> None)"

subsection \<open>The OIDC client\<close>

text \<open>
  The parameters \<open>openIdClient.callbackParams\<close> parses out of a redirect URL, with the
  text \<open>JSON.stringify\<close> gives for them.
\<close>

record callback_params =
  p_state :: "string option"
  p_code :: "string option"
  p_error :: "string option"
  p_error_description :: "string option"
  p_json :: string

text \<open>The third argument of \<open>oauthCallback\<close>.\<close>

record checks =
  c_code_verifier :: "string option"
  c_state :: "string option"

text \<open>
  The argument of \<open>authorizationUrl\<close>. The URL that call builds stands for these
  parameters, and the model keeps the parameters in its place.
\<close>

record auth_request =
  scopes :: string
  state :: string
  code_challenge :: string
  code_challenge_method :: string

text \<open>
  The collaborator: \<open>generators.codeChallenge\<close> (the S256 transform of a verifier),
  \<open>callbackParams\<close> (the parser of a redirect URL) and \<open>oauthCallback\<close> (the
  authorization-code exchange, which rejects or yields a token set).
\<close>

record oidc =
  codeChallenge :: "string \<Rightarrow> string"
  callbackParams :: "string \<Rightarrow> callback_params"
  oauthCallback :: "string \<Rightarrow> callback_params \<Rightarrow> checks \<Rightarrow> js_err + token_set"

subsection \<open>The session\<close>

record options =
  logger :: bool
  logLevel :: "string option"

datatype listener = NotListening | Listening

text \<open>
  The fields of the class. \<open>promises\<close> is the heap of the promises
  \<open>waitForTokenResponse\<close> creates, \<open>resultPromise\<close> a reference into it or \<open>null\<close>.
  \<open>logged\<close> collects what the logger is called with, \<open>uncaught\<close> the exceptions that
  leave a handler the event loop called, \<open>index_html\<close> the login link of the published
  instruction page.
\<close>

record session =
  options :: options
  openIdStore :: store
  proxyServer :: "listener option"
  staticServer :: "listener option"
  resultPromise :: "nat option"
  promises :: "promise_state list"
  logged :: "string list"
  uncaught :: "js_err list"
  index_html :: "auth_request option"

text \<open>
  The constructor (lines 27-44). Without an options object the defaults have no logger; a
  falsy \<open>logLevel\<close> becomes \<open>'info'\<close>.
\<close>

definition DaikinCloudProxy :: "options option \<Rightarrow> session" where
  "DaikinCloudProxy opts =
     (let o1 = (case opts of None \<Rightarrow> \<lparr>logger = False, logLevel = None\<rparr> | Some o' \<Rightarrow> o');
          o2 = (if \<not> truthy (logLevel o1) then o1\<lparr>logLevel := Some ''info''\<rparr> else o1)
      in \<lparr>options = o2, openIdStore = empty_store, proxyServer = None, staticServer = None,
          resultPromise = None, promises = [], logged = [], uncaught = [],
          index_html = None\<rparr>)"

text \<open>\<open>this.options.logger && this.options.logger(line)\<close>.\<close>

definition log_line :: "string \<Rightarrow> session \<Rightarrow> session" where
  "log_line line s = (if logger (options s) then s\<lparr>logged := logged s @ [line]\<rparr> else s)"

text \<open>
  \<open>this.options.logger && this.options.logLevel === 'debug' && this.options.logger(line)\<close>.
\<close>

definition debug_line :: "string \<Rightarrow> session \<Rightarrow> session" where
  "debug_line line s =
     (if logger (options s) \<and> logLevel (options s) = Some ''debug''
      then s\<lparr>logged := logged s @ [line]\<rparr> else s)"

text \<open>
  Calling \<open>resolve\<close> or \<open>reject\<close> of a promise: only a pending promise changes.
\<close>

definition settle :: "nat \<Rightarrow> promise_state \<Rightarrow> promise_state list \<Rightarrow> promise_state list" where
  "settle p r ps = (if p < length ps \<and> ps ! p = Pending then ps[p := r] else ps)"

text \<open>
  The statement the file repeats at lines 55-59, 88-91, 93-96 and 184-187:
  \<open>if (this.resultPromise) { this.resultPromise.resolve/reject(v); this.resultPromise = null; }\<close>
\<close>

definition settle_result :: "promise_state \<Rightarrow> session \<Rightarrow> session" where
  "settle_result r s =
     (case resultPromise s of
        None \<Rightarrow> s
      | Some p \<Rightarrow> s\<lparr>promises := settle p r (promises s), resultPromise := None\<rparr>)"

subsection \<open>waitForTokenResponse (lines 207-220)\<close>

text \<open>
  A new pending promise is stored in \<open>this.resultPromise\<close> and returned. The previous
  value of the field is overwritten without being looked at.
\<close>

definition waitForTokenResponse :: "session \<Rightarrow> nat \<times> session" where
  "waitForTokenResponse s =
     (let p = length (promises s)
      in (p, s\<lparr>promises := promises s @ [Pending], resultPromise := Some p\<rparr>))"

subsection \<open>\_generateInitialUrl (lines 227-242)\<close>

text \<open>
  \<open>verifier\<close> and \<open>st\<close> are what \<open>generators.codeVerifier()\<close> and \<open>generators.state()\<close>
  return.
\<close>

definition generateInitialUrl :: "oidc \<Rightarrow> string \<Rightarrow> string \<Rightarrow> session \<Rightarrow> auth_request \<times> session" where
  "generateInitialUrl c verifier st s =
     (let codeChallenge' = codeChallenge c verifier;
          s1 = s\<lparr>openIdStore := store_set (openIdStore s) st \<lparr>code_verifier = verifier\<rparr>\<rparr>
      in (\<lparr>scopes = ''email,openid,profile'', state = st, code_challenge = codeChallenge',
           code_challenge_method = ''S256''\<rparr>, s1))"

subsection \<open>\_retrieveTokens (lines 250-272)\<close>

text \<open>
  The result is what the promise of the \<open>async\<close> method settles with: \<open>Inl\<close> a thrown
  error, \<open>Inr\<close> the returned value, which is \<open>undefined\<close> when the method falls off its
  end.
\<close>

definition retrieveTokens :: "oidc \<Rightarrow> string \<Rightarrow> session \<Rightarrow> (js_err + js_value) \<times> session" where
  "retrieveTokens c callbackUrl s =
     (let params = callbackParams c callbackUrl;
          sl = store_get (openIdStore s) (jsstr (p_state params))
      in if sl = Absent then
           (Inl (new_Error (''Can not decode response for State '' @ jsstr (p_state params)
                   @ ''. Please reload start page and try again!'')), s)
         else if truthy (p_code params) then
           (case oauthCallback c ''daikinunified://login'' params
                   \<lparr>c_code_verifier = slot_verifier sl, c_state = p_state params\<rparr> of
              Inl e \<Rightarrow> (Inl e, s)
            | Inr tokenSet \<Rightarrow>
                (let s1 = debug_line (''Daikin-Cloud: received and validated tokens: ''
                            @ ts_json tokenSet) s
                 in if logger (options s) \<and> logLevel (options s) = Some ''debug'' then
                      (case ts_claims tokenSet of
                         None \<Rightarrow> (Inl (new_TypeError ''id_token not present in TokenSet''), s1)
                       | Some cl \<Rightarrow>
                           (Inr (TokenSet tokenSet),
                            debug_line (''Daikin-Cloud: validated ID Token claims: '' @ cl) s1))
                    else (Inr (TokenSet tokenSet), s1)))
         else if truthy (p_error params) then
           (Inl (new_Error (jsstr (p_error params) @ '': '' @ jsstr (p_error_description params))),
            log_line (''Daikin-Cloud: ERROR: '' @ p_json params) s)
         else (Inr Undefined, s))"

subsection \<open>The interception handlers (lines 66-113)\<close>

record request =
  req_url :: string
  req_host :: "string option"

record ctx =
  clientToProxyRequest :: "request option"

text \<open>
  The rest of the \<open>onResponseEnd\<close> handler once \<open>await this._retrieveTokens(...)\<close> has
  settled with \<open>r\<close> (lines 83-97): the \<open>try\<close> branch for a returned value, the
  \<open>catch\<close> branch for a thrown error.
\<close>

definition deliver :: "js_err + js_value \<Rightarrow> session \<Rightarrow> session" where
  "deliver r s =
     (case r of
        Inr daikinTokenSet \<Rightarrow>
          settle_result (Fulfilled daikinTokenSet)
            (log_line ''Daikin-Cloud: Token detection SUCCESS'' s)
      | Inl err \<Rightarrow> settle_result (Rejected err) s)"

text \<open>
  The \<open>onResponseEnd\<close> handler (lines 78-100), run without another event between the
  exchange and its delivery. \<open>loc\<close> is the \<open>location\<close> header of the response.
\<close>

definition onResponseEnd :: "oidc \<Rightarrow> string option \<Rightarrow> session \<Rightarrow> session" where
  "onResponseEnd c loc s =
     (if truthy loc \<and> startsWith (jsstr loc) ''daikinunified://'' then
        (case retrieveTokens c (jsstr loc) s of (r, s1) \<Rightarrow> deliver r s1)
      else s)"

text \<open>
  The \<open>onRequest\<close> handler (lines 66-104) together with the response that answers the
  request. In line 74 the conditional operator binds weaker than \<open>+\<close>, so in debug mode
  the logger is called with the request URL alone.
\<close>

definition onRequest :: "oidc \<Rightarrow> request \<Rightarrow> string option \<Rightarrow> session \<Rightarrow> session" where
  "onRequest c req loc s =
     (let s1 = debug_line (req_url req) s
      in if truthy (req_host req) \<and> str_includes (jsstr (req_host req)) ''daikin''
         then onResponseEnd c loc s1 else s1)"

text \<open>
  The \<open>onError\<close> handler (lines 106-113). In its condition \<open>&&\<close> binds stronger than
  \<open>||\<close>, so an \<open>err\<close> of \<open>null\<close> reaches \<open>err.code\<close> and the handler throws.
\<close>

definition onError :: "ctx option \<Rightarrow> js_err option \<Rightarrow> session \<Rightarrow> session" where
  "onError cx err s =
     (case err of
        None \<Rightarrow> s\<lparr>uncaught := uncaught s @ [new_TypeError ''Cannot read properties of null'']\<rparr>
      | Some e \<Rightarrow>
          if err_code e = Some ''ECONNRESET'' \<or> err_code e = Some ''ERR_SSL_UNSUPPORTED_PROTOCOL''
          then s
          else
            (let url = (case cx of
                          None \<Rightarrow> []
                        | Some x \<Rightarrow>
                            (case clientToProxyRequest x of None \<Rightarrow> [] | Some rq \<Rightarrow> req_url rq))
             in log_line (jsstr (err_code e) @ '': '' @ jsstr (err_stack e))
                  (log_line (''Daikin-Cloud: SSL-Proxy ERROR for '' @ url @ '' : '' @ err_toString e)
                     s)))"

subsection \<open>startServer (lines 51-175) and stopServer (lines 182-200)\<close>

text \<open>
  What the two listeners answer. The MITM engine reports a listener that cannot bind
  through its error event, that is to the \<open>onError\<close> handler, with no request context,
  and does not call the callback of \<open>listen\<close>; the static server emits \<open>'error'\<close>.
\<close>

datatype bind_outcome = ProxyBindFails js_err | StaticBindFails js_err | BothBind

text \<open>
  \<open>close()\<close> of the MITM engine stops its listener and takes no callback: the function
  the file hands to it (lines 134-139 and 189-195) is never called, so nothing that file
  writes inside that function happens. Writing the two pages is taken to succeed.
\<close>

definition startServer :: "oidc \<Rightarrow> string \<Rightarrow> string \<Rightarrow> bind_outcome \<Rightarrow> session \<Rightarrow> call_result \<times> session" where
  "startServer c verifier st env s =
     (if proxyServer s \<noteq> None then
        (Threw (new_Error ''Proxy Server already started. Please stop before starting again.''), s)
      else
        (let s1 = settle_result
                    (Rejected (new_Error ''Proxy Server just started. Discard old process.'')) s;
             s2 = s1\<lparr>proxyServer := Some NotListening\<rparr>
         in case env of
              ProxyBindFails e \<Rightarrow> (Returned Pending, onError None (Some e) s2)
            | StaticBindFails e \<Rightarrow>
                (let s3 = s2\<lparr>proxyServer := Some Listening, staticServer := Some NotListening\<rparr>;
                     s4 = log_line (jsstr (err_stack e))
                            (log_line (''SSL-Proxy could not be started: '' @ err_toString e) s3);
                     s5 = s4\<lparr>proxyServer := Some NotListening\<rparr>
                 in (Returned Pending, s5))
            | BothBind \<Rightarrow>
                (let s3 = s2\<lparr>proxyServer := Some Listening, staticServer := Some Listening\<rparr>
                 in case generateInitialUrl c verifier st s3 of
                      (startLink, s4) \<Rightarrow>
                        (Returned (Fulfilled JTrue), s4\<lparr>index_html := Some startLink\<rparr>))))"

definition stopServer :: "session \<Rightarrow> call_result \<times> session" where
  "stopServer s =
     (let s1 = settle_result (Rejected (new_Error ''Proxy Server stopped.'')) s
      in case proxyServer s1 of
           None \<Rightarrow> (Returned (Fulfilled Undefined), s1)
         | Some l \<Rightarrow> (Returned Pending, s1\<lparr>proxyServer := Some NotListening\<rparr>))"

subsection \<open>Runs of a session\<close>

text \<open>
  What can happen to a session, one event after the other: a call of one of the three
  public methods, a request passing through the proxy (with the \<open>location\<close> header of
  its response), the delivery of an exchange that was started by an earlier response and
  settles only now, and an error of the MITM engine.
\<close>

datatype event =
    Start string string bind_outcome
  | Stop
  | Wait
  | Traffic request "string option"
  | Delivery "js_err + js_value"
  | ProxyError "ctx option" "js_err option"

fun step :: "oidc \<Rightarrow> event \<Rightarrow> session \<Rightarrow> session" where
  "step c (Start verifier st env) s = snd (startServer c verifier st env s)"
| "step c Stop s = snd (stopServer s)"
| "step c Wait s = snd (waitForTokenResponse s)"
| "step c (Traffic req loc) s = onRequest c req loc s"
| "step c (Delivery r) s = deliver r s"
| "step c (ProxyError cx err) s = onError cx err s"

fun run :: "oidc \<Rightarrow> event list \<Rightarrow> session \<Rightarrow> session" where
  "run c [] s = s"
| "run c (ev # evs) s = run c evs (step c ev s)"

subsection \<open>What one event can do to a promise\<close>

text \<open>
  \<open>frame q s s'\<close>: the promise \<open>q\<close> of the session \<open>s\<close> is still there in \<open>s'\<close>; it
  is untouched there if \<open>this.resultPromise\<close> did not refer to it or if it was settled;
  and \<open>this.resultPromise\<close> does not come to refer to it.
\<close>

definition frame :: "nat \<Rightarrow> session \<Rightarrow> session \<Rightarrow> bool" where
  "frame q s s' \<longleftrightarrow>
     (q < length (promises s) \<longrightarrow>
        q < length (promises s')
        \<and> (resultPromise s \<noteq> Some q \<or> promises s ! q \<noteq> Pending \<longrightarrow>
             promises s' ! q = promises s ! q)
        \<and> (resultPromise s \<noteq> Some q \<longrightarrow> resultPromise s' \<noteq> Some q))"

text \<open>
  The rendezvous of a session is live: \<open>this.resultPromise\<close> is \<open>null\<close> or refers to a
  pending promise of the heap.
\<close>

definition rendezvous_pending :: "session \<Rightarrow> bool" where
  "rendezvous_pending s =
     (case resultPromise s of
        None \<Rightarrow> True
      | Some p \<Rightarrow> p < length (promises s) \<and> promises s ! p = Pending)"

subsection \<open>Sessions to run the functions on\<close>

text \<open>
  Parsed redirect parameters (state, code, error, error description) with their JSON
  text, which is written out for values that need no escaping; a stand-in for the OIDC
  client whose parser returns them and whose exchange yields an empty token set; and a
  session that generated a login link for \<open>state-1\<close> and then called
  \<open>waitForTokenResponse\<close>.
\<close>

fun join_commas :: "string list \<Rightarrow> string" where
  "join_commas [] = []"
| "join_commas [x] = x"
| "join_commas (x # y # ys) = x @ '','' @ join_commas (y # ys)"

definition json_member :: "string \<Rightarrow> string option \<Rightarrow> string list" where
  "json_member k v =
     (case v of
        None \<Rightarrow> []
      | Some s \<Rightarrow> [CHR 0x22 # k @ CHR 0x22 # CHR '':'' # CHR 0x22 # s @ [CHR 0x22]])"

definition redirect_params ::
  "string option \<Rightarrow> string option \<Rightarrow> string option \<Rightarrow> string option \<Rightarrow> callback_params" where
  "redirect_params st cd er ed =
     \<lparr>p_state = st, p_code = cd, p_error = er, p_error_description = ed,
      p_json = ''{'' @ join_commas (json_member ''code'' cd @ json_member ''error'' er
                 @ json_member ''error_description'' ed @ json_member ''state'' st) @ ''}''\<rparr>"

definition login_oidc :: "callback_params \<Rightarrow> oidc" where
  "login_oidc params =
     \<lparr>codeChallenge = (\<lambda>v. ''S256:'' @ v),
      callbackParams = (\<lambda>u. params),
      oauthCallback = (\<lambda>redirect ps ch. Inr \<lparr>ts_json = ''{}'', ts_claims = None\<rparr>)\<rparr>"

definition waiting_session :: session where
  "waiting_session =
     snd (waitForTokenResponse
       (snd (generateInitialUrl (login_oidc (redirect_params None None None None))
          ''verifier-1'' ''state-1'' (DaikinCloudProxy None))))"

text \<open>
  A session that started both listeners and then called \<open>waitForTokenResponse\<close>, and
  the error a listener emits when its port is taken.
\<close>

definition running_session :: session where
  "running_session =
     snd (waitForTokenResponse
       (snd (startServer (login_oidc (redirect_params None None None None))
          ''verifier-1'' ''state-1'' BothBind (DaikinCloudProxy None))))"

definition EADDRINUSE :: js_err where
  "EADDRINUSE =
     \<lparr>err_name = ''Error'', err_message = ''listen EADDRINUSE: address already in use'',
      err_code = Some ''EADDRINUSE'', err_stack = Some ''Error: listen EADDRINUSE''\<rparr>"

text \<open>
  A session with a logger, two errors of the MITM engine, and the context of a request.
\<close>

definition logging_session :: session where
  "logging_session = DaikinCloudProxy (Some \<lparr>logger = True, logLevel = None\<rparr>)"

definition ETIMEDOUT :: js_err where
  "ETIMEDOUT =
     \<lparr>err_name = ''Error'', err_message = ''connect ETIMEDOUT'',
      err_code = Some ''ETIMEDOUT'', err_stack = Some ''Error: connect ETIMEDOUT''\<rparr>"

definition ECONNRESET :: js_err where
  "ECONNRESET =
     \<lparr>err_name = ''Error'', err_message = ''read ECONNRESET'',
      err_code = Some ''ECONNRESET'', err_stack = Some ''Error: read ECONNRESET''\<rparr>"

definition token_request :: ctx where
  "token_request =
     \<lparr>clientToProxyRequest = Some \<lparr>req_url = ''/token'', req_host = Some ''id.daikin.eu''\<rparr>\<rparr>"

section \<open>Properties\<close>

subsection \<open>Fields the helpers leave alone\<close>

lemma log_line_fields [simp]:
  "promises (log_line l s) = promises s"
  "resultPromise (log_line l s) = resultPromise s"
  "proxyServer (log_line l s) = proxyServer s"
  "staticServer (log_line l s) = staticServer s"
  "openIdStore (log_line l s) = openIdStore s"
  "options (log_line l s) = options s"
  "uncaught (log_line l s) = uncaught s"
  by (simp_all add: log_line_def)

lemma debug_line_fields [simp]:
  "promises (debug_line l s) = promises s"
  "resultPromise (debug_line l s) = resultPromise s"
  "proxyServer (debug_line l s) = proxyServer s"
  "staticServer (debug_line l s) = staticServer s"
  "openIdStore (debug_line l s) = openIdStore s"
  "options (debug_line l s) = options s"
  "uncaught (debug_line l s) = uncaught s"
  by (simp_all add: debug_line_def)

lemma settle_result_fields [simp]:
  "resultPromise (settle_result r s) = None"
  "proxyServer (settle_result r s) = proxyServer s"
  "staticServer (settle_result r s) = staticServer s"
  "openIdStore (settle_result r s) = openIdStore s"
  "options (settle_result r s) = options s"
  "logged (settle_result r s) = logged s"
  "uncaught (settle_result r s) = uncaught s"
  by (simp_all add: settle_result_def split: option.splits)

lemma settle_result_promises:
  "promises (settle_result r s) =
     (case resultPromise s of None \<Rightarrow> promises s | Some p \<Rightarrow> settle p r (promises s))"
  by (simp add: settle_result_def split: option.splits)

lemma settle_length [simp]: "length (settle p r ps) = length ps"
  by (simp add: settle_def)

lemma settle_other: "q \<noteq> p \<Longrightarrow> settle p r ps ! q = ps ! q"
  by (simp add: settle_def)

lemma settle_settled: "ps ! q \<noteq> Pending \<Longrightarrow> settle p r ps ! q = ps ! q"
  by (cases "q = p") (simp_all add: settle_def)

lemma frame_from:
  "promises s1 = promises s \<Longrightarrow> resultPromise s1 = resultPromise s \<Longrightarrow>
   frame q s1 s' \<Longrightarrow> frame q s s'"
  by (simp add: frame_def)

lemma frame_same:
  "promises s' = promises s \<Longrightarrow> resultPromise s' = resultPromise s \<Longrightarrow> frame q s s'"
  by (simp add: frame_def)

lemma frame_settle_result: "frame q s (settle_result r s)"
  by (auto simp: frame_def settle_result_promises settle_other settle_settled
           split: option.splits)

lemma retrieveTokens_fields [simp]:
  "promises (snd (retrieveTokens c u s)) = promises s"
  "resultPromise (snd (retrieveTokens c u s)) = resultPromise s"
  by (simp_all add: retrieveTokens_def Let_def split: sum.splits option.splits)

lemma onError_fields [simp]:
  "promises (onError cx err s) = promises s"
  "resultPromise (onError cx err s) = resultPromise s"
  "proxyServer (onError cx err s) = proxyServer s"
  by (simp_all add: onError_def Let_def split: option.splits)

lemma generateInitialUrl_fields [simp]:
  "promises (snd (generateInitialUrl c v st s)) = promises s"
  "resultPromise (snd (generateInitialUrl c v st s)) = resultPromise s"
  "proxyServer (snd (generateInitialUrl c v st s)) = proxyServer s"
  "staticServer (snd (generateInitialUrl c v st s)) = staticServer s"
  by (simp_all add: generateInitialUrl_def Let_def)

lemma frame_deliver: "frame q s (deliver r s)"
proof (cases r)
  case (Inl e)
  then show ?thesis by (simp add: deliver_def frame_settle_result)
next
  case (Inr v)
  have "frame q (log_line ''Daikin-Cloud: Token detection SUCCESS'' s)
          (settle_result (Fulfilled v) (log_line ''Daikin-Cloud: Token detection SUCCESS'' s))"
    by (rule frame_settle_result)
  then have "frame q s
          (settle_result (Fulfilled v) (log_line ''Daikin-Cloud: Token detection SUCCESS'' s))"
    by (rule frame_from [rotated 2]) simp_all
  then show ?thesis using Inr by (simp add: deliver_def)
qed

lemma frame_onResponseEnd: "frame q s (onResponseEnd c loc s)"
proof (cases "truthy loc \<and> startsWith (jsstr loc) ''daikinunified://''")
  case False
  then show ?thesis by (auto simp: onResponseEnd_def frame_def)
next
  case True
  obtain r s1 where rt: "retrieveTokens c (jsstr loc) s = (r, s1)"
    by (cases "retrieveTokens c (jsstr loc) s")
  have same: "promises s1 = promises s" "resultPromise s1 = resultPromise s"
    using retrieveTokens_fields [of c "jsstr loc" s] rt by simp_all
  have "frame q s1 (deliver r s1)" by (rule frame_deliver)
  with same have "frame q s (deliver r s1)" by (rule frame_from)
  then show ?thesis using True rt by (simp add: onResponseEnd_def)
qed

lemma frame_onRequest: "frame q s (onRequest c req loc s)"
proof -
  have "frame q (debug_line (req_url req) s)
          (onResponseEnd c loc (debug_line (req_url req) s))"
    by (rule frame_onResponseEnd)
  then have "frame q s (onResponseEnd c loc (debug_line (req_url req) s))"
    by (rule frame_from [rotated 2]) simp_all
  then show ?thesis
    by (simp add: onRequest_def Let_def frame_same)
qed

lemma frame_wait: "frame q s (snd (waitForTokenResponse s))"
  by (simp add: waitForTokenResponse_def Let_def frame_def nth_append)

lemma frame_to:
  "promises s2 = promises s' \<Longrightarrow> resultPromise s2 = resultPromise s' \<Longrightarrow>
   frame q s s' \<Longrightarrow> frame q s s2"
  by (simp add: frame_def)

lemma frame_stop: "frame q s (snd (stopServer s))"
proof -
  let ?s1 = "settle_result (Rejected (new_Error ''Proxy Server stopped.'')) s"
  have "promises (snd (stopServer s)) = promises ?s1"
       "resultPromise (snd (stopServer s)) = resultPromise ?s1"
    by (simp_all add: stopServer_def Let_def split: option.splits)
  then show ?thesis by (rule frame_to) (rule frame_settle_result)
qed

lemma frame_start: "frame q s (snd (startServer c v st env s))"
proof (cases "proxyServer s \<noteq> None")
  case True
  then show ?thesis by (simp add: startServer_def frame_same)
next
  case False
  let ?s1 = "settle_result (Rejected (new_Error ''Proxy Server just started. Discard old process.'')) s"
  have "promises (snd (startServer c v st env s)) = promises ?s1"
       "resultPromise (snd (startServer c v st env s)) = resultPromise ?s1"
    using False
    by (cases env; simp add: startServer_def Let_def generateInitialUrl_def)+
  then show ?thesis by (rule frame_to) (rule frame_settle_result)
qed

lemma frame_step: "frame q s (step c ev s)"
  by (cases ev)
     (simp_all add: frame_start frame_stop frame_wait frame_onRequest frame_deliver frame_same)

lemma frame_run_unreferenced:
  "q < length (promises s) \<Longrightarrow> resultPromise s \<noteq> Some q \<Longrightarrow>
   promises (run c evs s) ! q = promises s ! q"
proof (induction evs arbitrary: s)
  case Nil
  then show ?case by simp
next
  case (Cons ev evs)
  have f: "frame q s (step c ev s)" by (rule frame_step)
  with Cons.prems have "q < length (promises (step c ev s))"
    "resultPromise (step c ev s) \<noteq> Some q" "promises (step c ev s) ! q = promises s ! q"
    by (simp_all add: frame_def)
  with Cons.IH [of "step c ev s"] show ?case by simp
qed

lemma frame_run_settled:
  "q < length (promises s) \<Longrightarrow> promises s ! q \<noteq> Pending \<Longrightarrow>
   promises (run c evs s) ! q = promises s ! q"
proof (induction evs arbitrary: s)
  case Nil
  then show ?case by simp
next
  case (Cons ev evs)
  have f: "frame q s (step c ev s)" by (rule frame_step)
  with Cons.prems have "q < length (promises (step c ev s))"
    "promises (step c ev s) ! q = promises s ! q"
    by (simp_all add: frame_def)
  with Cons.IH [of "step c ev s"] Cons.prems show ?case by simp
qed

subsection \<open>The rendezvous of a reachable session is pending\<close>

text \<open>
  Every statement that settles the promise clears the field with it, so from the
  constructor on the field never refers to a settled or missing promise.
\<close>

lemma rendezvous_pending_cleared: "resultPromise s = None \<Longrightarrow> rendezvous_pending s"
  by (simp add: rendezvous_pending_def)

lemma rendezvous_pending_same:
  "promises s' = promises s \<Longrightarrow> resultPromise s' = resultPromise s \<Longrightarrow>
   rendezvous_pending s \<Longrightarrow> rendezvous_pending s'"
  by (simp add: rendezvous_pending_def split: option.splits)

lemma deliver_cleared: "resultPromise (deliver r s) = None"
  by (cases r) (simp_all add: deliver_def)

lemma onResponseEnd_cleared:
  "resultPromise (onResponseEnd c loc s) = None \<or> onResponseEnd c loc s = s"
  by (simp add: onResponseEnd_def deliver_cleared split: prod.splits)

lemma rendezvous_pending_onRequest:
  assumes "rendezvous_pending s"
  shows "rendezvous_pending (onRequest c req loc s)"
proof -
  let ?s1 = "debug_line (req_url req) s"
  have s1: "rendezvous_pending ?s1"
    using assms by (rule rendezvous_pending_same [rotated 2]) simp_all
  from onResponseEnd_cleared [of c loc ?s1] s1
  have "rendezvous_pending (onResponseEnd c loc ?s1)"
    by (auto intro: rendezvous_pending_cleared)
  with s1 show ?thesis by (simp add: onRequest_def Let_def)
qed

lemma stopServer_cleared: "resultPromise (snd (stopServer s)) = None"
  by (simp add: stopServer_def Let_def split: option.splits)

lemma startServer_cleared:
  "resultPromise (snd (startServer c v st env s)) = None \<or> snd (startServer c v st env s) = s"
  by (cases env) (simp_all add: startServer_def Let_def generateInitialUrl_def)

lemma rendezvous_pending_wait: "rendezvous_pending (snd (waitForTokenResponse s))"
  by (simp add: waitForTokenResponse_def Let_def rendezvous_pending_def)

lemma rendezvous_pending_step:
  assumes "rendezvous_pending s"
  shows "rendezvous_pending (step c ev s)"
proof (cases ev)
  case (Start v st env)
  with startServer_cleared [of c v st env s] assms show ?thesis
    by (auto intro: rendezvous_pending_cleared)
next
  case Stop
  then show ?thesis by (simp add: stopServer_cleared rendezvous_pending_cleared)
next
  case Wait
  then show ?thesis by (simp add: rendezvous_pending_wait)
next
  case (Traffic req loc)
  with assms show ?thesis by (simp add: rendezvous_pending_onRequest)
next
  case (Delivery r)
  then show ?thesis by (simp add: deliver_cleared rendezvous_pending_cleared)
next
  case (ProxyError cx err)
  with assms show ?thesis
    by (simp add: rendezvous_pending_same [of "onError cx err s" s])
qed

lemma rendezvous_pending_run:
  "rendezvous_pending s \<Longrightarrow> rendezvous_pending (run c evs s)"
  by (induction evs arbitrary: s) (simp_all add: rendezvous_pending_step)

lemma rendezvous_pending_reachable: "rendezvous_pending (run c evs (DaikinCloudProxy opts))"
  by (rule rendezvous_pending_run)
     (simp add: rendezvous_pending_def DaikinCloudProxy_def Let_def)

subsection \<open>The sessions of the examples\<close>

lemma DaikinCloudProxy_None:
  "DaikinCloudProxy None =
     \<lparr>options = \<lparr>logger = False, logLevel = Some ''info''\<rparr>, openIdStore = empty_store,
      proxyServer = None, staticServer = None, resultPromise = None, promises = [],
      logged = [], uncaught = [], index_html = None\<rparr>"
  by (simp add: DaikinCloudProxy_def Let_def truthy_def)

lemma waiting_session_logged:
  "logged waiting_session = []"
  "uncaught waiting_session = []"
  by (simp_all add: waiting_session_def waitForTokenResponse_def generateInitialUrl_def
        DaikinCloudProxy_None Let_def)

lemma waiting_session_fields:
  "resultPromise waiting_session = Some 0"
  "promises waiting_session = [Pending]"
  "proxyServer waiting_session = None"
  "store_get (openIdStore waiting_session) ''state-1'' = Entry \<lparr>code_verifier = ''verifier-1''\<rparr>"
  "logger (options waiting_session) = False"
  by (simp_all add: waiting_session_def waitForTokenResponse_def generateInitialUrl_def
        DaikinCloudProxy_None Let_def store_set_def store_get_def empty_store_def)

lemma running_session_fields:
  "resultPromise running_session = Some 0"
  "promises running_session = [Pending]"
  "proxyServer running_session = Some Listening"
  "staticServer running_session = Some Listening"
  by (simp_all add: running_session_def waitForTokenResponse_def startServer_def
        generateInitialUrl_def DaikinCloudProxy_None Let_def settle_result_def)

lemma startServer_BothBind:
  "proxyServer s = None \<Longrightarrow> fst (startServer c v st BothBind s) = Returned (Fulfilled JTrue)"
  "proxyServer s = None \<Longrightarrow> proxyServer (snd (startServer c v st BothBind s)) = Some Listening"
  "proxyServer s = None \<Longrightarrow> staticServer (snd (startServer c v st BothBind s)) = Some Listening"
  by (simp_all add: startServer_def Let_def generateInitialUrl_def)

lemma logging_session_fields:
  "logger (options logging_session) = True"
  "logged logging_session = []"
  by (simp_all add: logging_session_def DaikinCloudProxy_def Let_def truthy_def)

subsection \<open>Delivery into the rendezvous\<close>

text \<open>
  Claim C3. For every delivery of a result or an error from the interception callback
  (\<open>deliver\<close>, the handler after its \<open>await\<close>): when a rendezvous is active, its promise
  is settled with what is delivered (fulfilled with a returned value, rejected with a
  thrown error) and \<open>this.resultPromise\<close> is cleared, and whatever happens to the session
  afterwards, further deliveries included, leaves that promise as it was settled; when no
  rendezvous is active, the delivery changes nothing but the success line of the logger;
  and no delivery raises an exception.
\<close>

theorem deliver_first_wins:
  "(resultPromise s = Some p \<and> p < length (promises s) \<and> promises s ! p = Pending \<longrightarrow>
      promises (deliver r s) ! p = (case r of Inr v \<Rightarrow> Fulfilled v | Inl e \<Rightarrow> Rejected e)
      \<and> resultPromise (deliver r s) = None
      \<and> promises (run c evs (deliver r s)) ! p = promises (deliver r s) ! p)
   \<and> (resultPromise s = None \<longrightarrow>
        deliver r s = (case r of Inr v \<Rightarrow> log_line ''Daikin-Cloud: Token detection SUCCESS'' s
                       | Inl e \<Rightarrow> s))
   \<and> uncaught (deliver r s) = uncaught s"
proof (intro conjI impI)
  assume a: "resultPromise s = Some p \<and> p < length (promises s) \<and> promises s ! p = Pending"
  then show v: "promises (deliver r s) ! p = (case r of Inr v \<Rightarrow> Fulfilled v | Inl e \<Rightarrow> Rejected e)"
    by (cases r) (simp_all add: deliver_def settle_result_promises settle_def)
  show "resultPromise (deliver r s) = None"
    by (cases r) (simp_all add: deliver_def)
  have "frame p s (deliver r s)" by (rule frame_deliver)
  with a have "p < length (promises (deliver r s))" by (simp add: frame_def)
  moreover have "promises (deliver r s) ! p \<noteq> Pending"
    using v by (cases r) simp_all
  ultimately show "promises (run c evs (deliver r s)) ! p = promises (deliver r s) ! p"
    by (rule frame_run_settled)
next
  assume "resultPromise s = None"
  then show "deliver r s = (case r of Inr v \<Rightarrow> log_line ''Daikin-Cloud: Token detection SUCCESS'' s
                       | Inl e \<Rightarrow> s)"
    by (cases r) (simp_all add: deliver_def settle_result_def log_line_def)
next
  show "uncaught (deliver r s) = uncaught s"
    by (cases r) (simp_all add: deliver_def)
qed

theorem deliver_first_wins_witness:
  "promises (deliver (Inr Undefined) waiting_session) ! 0 = Fulfilled Undefined
   \<and> promises (run (login_oidc (redirect_params None None None None))
        [Delivery (Inl (new_Error ''late'')), Stop]
        (deliver (Inr Undefined) waiting_session)) ! 0 = Fulfilled Undefined
   \<and> deliver (Inl (new_Error ''late'')) (DaikinCloudProxy None) = DaikinCloudProxy None"
proof -
  have h: "resultPromise waiting_session = Some 0 \<and> 0 < length (promises waiting_session)
           \<and> promises waiting_session ! 0 = Pending"
    by (simp add: waiting_session_fields)
  have n: "resultPromise (DaikinCloudProxy None) = None"
    by (simp add: DaikinCloudProxy_None)
  show ?thesis
    using h n
      deliver_first_wins [of waiting_session 0 "Inr Undefined"
        "login_oidc (redirect_params None None None None)"
        "[Delivery (Inl (new_Error ''late'')), Stop]"]
      deliver_first_wins [of "DaikinCloudProxy None" 0 "Inl (new_Error ''late'')"]
    by simp
qed

subsection \<open>A second wait\<close>

text \<open>
  Claim C1, as stated, at a concrete session: a session whose rendezvous (promise 0) is
  unsettled calls \<open>waitForTokenResponse\<close> again. The claim has the first promise
  rejected; it is still pending, and the field refers to the new promise 1.
\<close>

theorem waitForTokenResponse_twice_counterexample:
  "promises (snd (waitForTokenResponse waiting_session)) ! 0 = Pending
   \<and> resultPromise waiting_session = Some 0
   \<and> resultPromise (snd (waitForTokenResponse waiting_session)) = Some 1"
  by (simp add: waitForTokenResponse_def Let_def waiting_session_fields)

text \<open>
  Claim C1, amended. For every session in which a prior rendezvous is still unsettled,
  calling \<open>waitForTokenResponse\<close> again stores a new pending promise in
  \<open>this.resultPromise\<close> and does not settle the prior one: the prior promise is a
  different promise, it is still pending, the session no longer refers to it, and no
  later event of the session settles it. The session refers to at most one rendezvous at
  a time.
\<close>

theorem waitForTokenResponse_replaces:
  assumes "resultPromise s = Some p" and "p < length (promises s)"
    and "promises s ! p = Pending" and "waitForTokenResponse s = (q, s')"
  shows "q \<noteq> p \<and> resultPromise s' = Some q \<and> promises s' ! q = Pending
         \<and> promises s' ! p = Pending \<and> promises (run c evs s') ! p = Pending"
proof -
  from assms(4) have q: "q = length (promises s)"
    and s': "s' = s\<lparr>promises := promises s @ [Pending], resultPromise := Some q\<rparr>"
    by (auto simp: waitForTokenResponse_def Let_def)
  from q assms(2) have ne: "q \<noteq> p" by simp
  from s' assms(2,3) have old: "promises s' ! p = Pending" by (simp add: nth_append)
  from s' q have new: "resultPromise s' = Some q" "promises s' ! q = Pending" by simp_all
  from s' assms(2) have "p < length (promises s')" by simp
  moreover from new ne have "resultPromise s' \<noteq> Some p" by simp
  ultimately have "promises (run c evs s') ! p = promises s' ! p"
    by (rule frame_run_unreferenced)
  with ne new old show ?thesis by simp
qed

theorem waitForTokenResponse_replaces_witness:
  "promises (run (login_oidc (redirect_params (Some ''state-1'') (Some ''code-1'') None None))
      [Traffic \<lparr>req_url = ''/login'', req_host = Some ''id.daikin.eu''\<rparr>
         (Some ''daikinunified://login?code=code-1&state=state-1''), Stop]
      (snd (waitForTokenResponse waiting_session))) ! 0 = Pending"
proof -
  have h: "resultPromise waiting_session = Some 0" "0 < length (promises waiting_session)"
    "promises waiting_session ! 0 = Pending"
    by (simp_all add: waiting_session_fields)
  have w: "waitForTokenResponse waiting_session = (1, snd (waitForTokenResponse waiting_session))"
    by (simp add: waitForTokenResponse_def Let_def waiting_session_fields)
  show ?thesis
    using waitForTokenResponse_replaces [OF h w,
        where c = "login_oidc (redirect_params (Some ''state-1'') (Some ''code-1'') None None)"
          and evs = "[Traffic \<lparr>req_url = ''/login'', req_host = Some ''id.daikin.eu''\<rparr>
                        (Some ''daikinunified://login?code=code-1&state=state-1''), Stop]"]
    by simp
qed

subsection \<open>A redirect with neither code nor error\<close>

text \<open>
  With a state that reads as a truthy value from the store, no truthy \<open>code\<close> and no
  truthy \<open>error\<close>, \<open>_retrieveTokens\<close> falls off its end: it returns \<open>undefined\<close> and
  leaves the session as it was.
\<close>

lemma retrieveTokens_no_outcome:
  assumes "store_get (openIdStore s) (jsstr (p_state (callbackParams c url))) \<noteq> Absent"
    and "\<not> truthy (p_code (callbackParams c url))"
    and "\<not> truthy (p_error (callbackParams c url))"
  shows "retrieveTokens c url s = (Inr Undefined, s)"
  using assms by (simp add: retrieveTokens_def Let_def)

text \<open>
  Claim C2, at the input where the code departs from it: the redirect carries the known
  state \<open>state-1\<close> and neither \<open>code\<close> nor \<open>error\<close>, while promise 0 waits. The
  exchange produces no token set and throws no error, but the handler takes the
  \<open>undefined\<close> it returns for a token set: promise 0 is fulfilled with \<open>undefined\<close>,
  the field is cleared, and a session with a logger is told
  \<open>Token detection SUCCESS\<close>. The claim has the rendezvous stay unsettled.
\<close>

theorem no_outcome_redirect_reports_success:
  "promises waiting_session ! 0 = Pending
   \<and> retrieveTokens (login_oidc (redirect_params (Some ''state-1'') None None None))
         ''daikinunified://login?state=state-1'' waiting_session
       = (Inr Undefined, waiting_session)
   \<and> promises (onResponseEnd (login_oidc (redirect_params (Some ''state-1'') None None None))
         (Some ''daikinunified://login?state=state-1'') waiting_session) ! 0
       = Fulfilled Undefined
   \<and> resultPromise (onResponseEnd (login_oidc (redirect_params (Some ''state-1'') None None None))
         (Some ''daikinunified://login?state=state-1'') waiting_session) = None
   \<and> logged (onResponseEnd (login_oidc (redirect_params (Some ''state-1'') None None None))
         (Some ''daikinunified://login?state=state-1'')
         (waiting_session\<lparr>options := \<lparr>logger = True, logLevel = Some ''info''\<rparr>\<rparr>))
       = [''Daikin-Cloud: Token detection SUCCESS'']"
  by (simp add: onResponseEnd_def retrieveTokens_def deliver_def settle_result_def settle_def
        log_line_def login_oidc_def redirect_params_def truthy_def jsstr_def Let_def
        waiting_session_fields waiting_session_logged)

subsection \<open>Stopping\<close>

text \<open>
  What \<open>stopServer\<close> does in every session: an outstanding rendezvous is rejected with
  \<open>Proxy Server stopped.\<close> and the field cleared; with no proxy object it resolves at
  once; with a proxy object it closes the proxy, keeps the object in its field, leaves
  the static server alone, and its promise never settles.
\<close>

lemma stopServer_rejects_outstanding:
  assumes "resultPromise s = Some p" and "p < length (promises s)"
    and "promises s ! p = Pending"
  shows "promises (snd (stopServer s)) ! p = Rejected (new_Error ''Proxy Server stopped.'')
         \<and> resultPromise (snd (stopServer s)) = None"
proof -
  have "promises (snd (stopServer s))
          = promises (settle_result (Rejected (new_Error ''Proxy Server stopped.'')) s)"
    by (simp add: stopServer_def Let_def split: option.splits)
  moreover have "resultPromise (snd (stopServer s)) = None"
    by (simp add: stopServer_def Let_def split: option.splits)
  ultimately show ?thesis
    using assms by (simp add: settle_result_promises settle_def)
qed

lemma stopServer_idle:
  "proxyServer s = None \<Longrightarrow>
   fst (stopServer s) = Returned (Fulfilled Undefined)
   \<and> uncaught (snd (stopServer s)) = uncaught s"
  by (simp add: stopServer_def Let_def)

lemma stopServer_running:
  "proxyServer s = Some l \<Longrightarrow>
   fst (stopServer s) = Returned Pending
   \<and> proxyServer (snd (stopServer s)) = Some NotListening
   \<and> staticServer (snd (stopServer s)) = staticServer s"
  by (simp add: stopServer_def Let_def)

text \<open>
  Claim C4, at the input where the code departs from it: a session that started both
  listeners and waits (promise 0) calls \<open>stopServer\<close> and then \<open>startServer\<close>. The
  waiting promise is rejected with \<open>Proxy Server stopped.\<close>, as the claim says. But
  \<open>this.proxyServer = null\<close>, the closing of the static server and \<open>resolve(true)\<close> all
  sit inside the function handed to the proxy's \<open>close()\<close>, which is never called: the
  promise of \<open>stopServer\<close> never settles, the proxy object stays in its field, the static
  server goes on listening, and the \<open>startServer\<close> that follows throws. The claim has
  that start succeed.
\<close>

theorem stopServer_running_never_resolves:
  "promises (snd (stopServer running_session)) ! 0
     = Rejected (new_Error ''Proxy Server stopped.'')
   \<and> fst (stopServer running_session) = Returned Pending
   \<and> proxyServer (snd (stopServer running_session)) = Some NotListening
   \<and> staticServer (snd (stopServer running_session)) = Some Listening
   \<and> fst (startServer c verifier st BothBind (snd (stopServer running_session)))
     = Threw (new_Error ''Proxy Server already started. Please stop before starting again.'')"
  by (simp add: stopServer_def startServer_def Let_def settle_result_def settle_def
        running_session_fields)

subsection \<open>Starting with a stale rendezvous\<close>

text \<open>
  Claim C10. If \<open>startServer\<close> is called while no proxy is running and a rendezvous
  of an earlier cycle is still outstanding, then, whatever the listeners answer, the
  stale promise is rejected with \<open>Proxy Server just started. Discard old process.\<close>,
  the field is cleared, and no event of the session that follows changes that promise:
  the new session never resolves it.
\<close>

theorem startServer_discards_stale_wait:
  assumes "proxyServer s = None" and "resultPromise s = Some p"
    and "p < length (promises s)" and "promises s ! p = Pending"
  shows "promises (snd (startServer c verifier st env s)) ! p
           = Rejected (new_Error ''Proxy Server just started. Discard old process.'')
         \<and> resultPromise (snd (startServer c verifier st env s)) = None
         \<and> promises (run c evs (snd (startServer c verifier st env s))) ! p
           = Rejected (new_Error ''Proxy Server just started. Discard old process.'')"
proof -
  let ?s' = "snd (startServer c verifier st env s)"
  let ?s1 = "settle_result
               (Rejected (new_Error ''Proxy Server just started. Discard old process.'')) s"
  have eq: "promises ?s' = promises ?s1" "resultPromise ?s' = resultPromise ?s1"
    using assms(1) by (cases env; simp add: startServer_def Let_def generateInitialUrl_def)+
  from assms(2-4) have r: "promises ?s' ! p
      = Rejected (new_Error ''Proxy Server just started. Discard old process.'')"
    by (simp add: eq settle_result_promises settle_def)
  have n: "resultPromise ?s' = None" by (simp add: eq)
  from assms(3) have "p < length (promises ?s')"
    by (simp add: eq settle_result_promises assms(2))
  moreover from r have "promises ?s' ! p \<noteq> Pending" by simp
  ultimately have "promises (run c evs ?s') ! p = promises ?s' ! p"
    by (rule frame_run_settled)
  with r n show ?thesis by simp
qed

theorem startServer_discards_stale_wait_witness:
  "promises (run (login_oidc (redirect_params (Some ''state-2'') (Some ''code-2'') None None))
      [Traffic \<lparr>req_url = ''/login'', req_host = Some ''id.daikin.eu''\<rparr>
         (Some ''daikinunified://login?code=code-2&state=state-2'')]
      (snd (startServer (login_oidc (redirect_params (Some ''state-2'') (Some ''code-2'') None None))
         ''verifier-2'' ''state-2'' BothBind waiting_session))) ! 0
     = Rejected (new_Error ''Proxy Server just started. Discard old process.'')"
proof -
  have h: "proxyServer waiting_session = None" "resultPromise waiting_session = Some 0"
    "0 < length (promises waiting_session)" "promises waiting_session ! 0 = Pending"
    by (simp_all add: waiting_session_fields)
  show ?thesis
    using startServer_discards_stale_wait [OF h,
        where c = "login_oidc (redirect_params (Some ''state-2'') (Some ''code-2'') None None)"
          and verifier = "''verifier-2''" and st = "''state-2''" and env = BothBind
          and evs = "[Traffic \<lparr>req_url = ''/login'', req_host = Some ''id.daikin.eu''\<rparr>
                        (Some ''daikinunified://login?code=code-2&state=state-2'')]"]
    by simp
qed

subsection \<open>A listener that cannot bind\<close>

text \<open>
  Claim C5, at the input where the code departs from it: \<open>startServer\<close> on a fresh
  session whose proxy listener finds its port taken. The promise of \<open>startServer\<close>
  never settles, nothing is logged (the fresh session has no logger), the proxy object
  stays in \<open>this.proxyServer\<close>, and the next \<open>startServer\<close> throws.
\<close>

theorem startServer_proxy_bind_failure:
  "fst (startServer c verifier st (ProxyBindFails EADDRINUSE) (DaikinCloudProxy None))
     = Returned Pending
   \<and> proxyServer (snd (startServer c verifier st (ProxyBindFails EADDRINUSE)
        (DaikinCloudProxy None))) = Some NotListening
   \<and> logged (snd (startServer c verifier st (ProxyBindFails EADDRINUSE)
        (DaikinCloudProxy None))) = []
   \<and> fst (startServer c verifier st BothBind
        (snd (startServer c verifier st (ProxyBindFails EADDRINUSE) (DaikinCloudProxy None))))
     = Threw (new_Error ''Proxy Server already started. Please stop before starting again.'')"
  by (simp add: startServer_def Let_def settle_result_def onError_def log_line_def
        EADDRINUSE_def DaikinCloudProxy_None)

text \<open>
  The static server's path, for comparison. Its handler (lines 131-141) sets out to do
  what the claim says, but it closes the proxy first and nulls the fields and rejects
  only inside the function handed to the proxy's \<open>close()\<close>: that start never
  settles either, and both objects stay in their fields.
\<close>

lemma startServer_static_bind_failure:
  "proxyServer s = None \<Longrightarrow>
   fst (startServer c verifier st (StaticBindFails e) s) = Returned Pending
   \<and> proxyServer (snd (startServer c verifier st (StaticBindFails e) s)) = Some NotListening
   \<and> staticServer (snd (startServer c verifier st (StaticBindFails e) s)) = Some NotListening"
  by (simp add: startServer_def Let_def)

subsection \<open>A redirect with an unknown state\<close>

text \<open>
  A state that reads as a falsy value from the store makes the exchange throw, and a state
  that is no entry, no property of \<open>Object.prototype\<close> and not \<open>code_verifier\<close> reads
  so.
\<close>

lemma retrieveTokens_absent_state:
  "store_get (openIdStore s) (jsstr (p_state (callbackParams c url))) = Absent \<Longrightarrow>
   retrieveTokens c url s =
     (Inl (new_Error (''Can not decode response for State ''
             @ jsstr (p_state (callbackParams c url))
             @ ''. Please reload start page and try again!'')), s)"
  by (simp add: retrieveTokens_def Let_def)

lemma store_get_unknown:
  "own st k = None \<Longrightarrow> k \<notin> set Object_prototype_keys \<Longrightarrow> k \<noteq> ''code_verifier'' \<Longrightarrow>
   store_get st k = Absent"
  by (simp add: store_get_def Object_prototype_keys_def)

text \<open>
  Claim C6, at the input where the code departs from it: a redirect with
  \<open>state=constructor\<close> and a code, on a fresh session, whose store has no entry at all.
  \<open>this.openIdStore['constructor']\<close> is the inherited \<open>Object\<close> function, a truthy
  value, so the check of line 253 passes: the exchange is attempted, with a
  \<open>code_verifier\<close> of \<open>undefined\<close>, and its result is returned.
\<close>

theorem retrieveTokens_inherited_state:
  "own (openIdStore (DaikinCloudProxy None)) ''constructor'' = None
   \<and> retrieveTokens (login_oidc (redirect_params (Some ''constructor'') (Some ''code-1'') None None))
       ''daikinunified://login?code=code-1&state=constructor'' (DaikinCloudProxy None)
     = (Inr (TokenSet \<lparr>ts_json = ''{}'', ts_claims = None\<rparr>), DaikinCloudProxy None)
   \<and> slot_verifier (store_get (openIdStore (DaikinCloudProxy None)) ''constructor'') = None"
  by (simp add: retrieveTokens_def Let_def DaikinCloudProxy_None empty_store_def store_get_def
        Object_prototype_keys_def login_oidc_def redirect_params_def jsstr_def truthy_def
        slot_verifier_def debug_line_def)

subsection \<open>The login link\<close>

text \<open>
  Claim C7. For every login link \<open>_generateInitialUrl\<close> produces: the store, read at the
  state of the link, holds an entry written by this call, whose \<open>code_verifier\<close> is the
  generated verifier; the \<open>code_challenge\<close> of the link is \<open>generators.codeChallenge\<close>
  (the S256 transform of the OIDC library) of that verifier; and its
  \<open>code_challenge_method\<close> is \<open>S256\<close>.
\<close>

theorem generateInitialUrl_challenge:
  assumes "generateInitialUrl c verifier st s = (url, s')"
  shows "state url = st
         \<and> store_get (openIdStore s') (state url) = Entry \<lparr>code_verifier = verifier\<rparr>
         \<and> code_challenge url = codeChallenge c verifier
         \<and> code_challenge_method url = ''S256''"
proof -
  from assms have u: "url = \<lparr>scopes = ''email,openid,profile'', state = st,
        code_challenge = codeChallenge c verifier, code_challenge_method = ''S256''\<rparr>"
    and s': "openIdStore s' = store_set (openIdStore s) st \<lparr>code_verifier = verifier\<rparr>"
    by (auto simp: generateInitialUrl_def Let_def)
  have "store_get (store_set (openIdStore s) st \<lparr>code_verifier = verifier\<rparr>) st
          = Entry \<lparr>code_verifier = verifier\<rparr>"
    by (simp add: store_get_def store_set_def)
  with u s' show ?thesis by simp
qed

theorem generateInitialUrl_challenge_witness:
  "code_challenge (fst (generateInitialUrl (login_oidc (redirect_params None None None None))
      ''verifier-1'' ''state-1'' (DaikinCloudProxy None))) = ''S256:verifier-1''
   \<and> store_get (openIdStore (snd (generateInitialUrl (login_oidc (redirect_params None None None None))
      ''verifier-1'' ''state-1'' (DaikinCloudProxy None)))) ''state-1''
     = Entry \<lparr>code_verifier = ''verifier-1''\<rparr>"
proof -
  let ?g = "generateInitialUrl (login_oidc (redirect_params None None None None))
      ''verifier-1'' ''state-1'' (DaikinCloudProxy None)"
  have h: "?g = (fst ?g, snd ?g)" by simp
  have cc: "codeChallenge (login_oidc (redirect_params None None None None)) ''verifier-1''
              = ''S256:verifier-1''"
    by (simp add: login_oidc_def)
  from generateInitialUrl_challenge [OF h]
  have "state (fst ?g) = ''state-1''"
    and "store_get (openIdStore (snd ?g)) (state (fst ?g)) = Entry \<lparr>code_verifier = ''verifier-1''\<rparr>"
    and "code_challenge (fst ?g)
           = codeChallenge (login_oidc (redirect_params None None None None)) ''verifier-1''"
    by blast+
  with cc show ?thesis by simp
qed

subsection \<open>A redirect with an error\<close>

text \<open>
  With a known state, no \<open>code\<close> and an \<open>error\<close> that is not empty, the exchange throws
  an \<open>Error\<close> whose message is the provider's \<open>error\<close>, a colon and a blank, and the
  provider's \<open>error_description\<close> (the text \<open>undefined\<close> when there is none), and the
  handler rejects a waiting rendezvous with it.
\<close>

lemma error_redirect_rejects:
  assumes "store_get (openIdStore s) (jsstr (p_state (callbackParams c url))) = Entry e"
    and "p_code (callbackParams c url) = None"
    and "p_error (callbackParams c url) = Some er" and "er \<noteq> []"
  shows "fst (retrieveTokens c url s)
           = Inl (new_Error (er @ '': '' @ jsstr (p_error_description (callbackParams c url))))
         \<and> (startsWith url ''daikinunified://'' \<and> resultPromise s = Some p
              \<and> p < length (promises s) \<and> promises s ! p = Pending \<longrightarrow>
            promises (onResponseEnd c (Some url) s) ! p
              = Rejected (new_Error (er @ '': ''
                  @ jsstr (p_error_description (callbackParams c url)))))"
proof -
  let ?err = "new_Error (er @ '': '' @ jsstr (p_error_description (callbackParams c url)))"
  let ?s1 = "log_line (''Daikin-Cloud: ERROR: '' @ p_json (callbackParams c url)) s"
  from assms have rt: "retrieveTokens c url s = (Inl ?err, ?s1)"
    by (simp add: retrieveTokens_def Let_def truthy_def jsstr_def)
  have "promises (onResponseEnd c (Some url) s) ! p = Rejected ?err"
    if a: "startsWith url ''daikinunified://'' \<and> resultPromise s = Some p
              \<and> p < length (promises s) \<and> promises s ! p = Pending"
  proof -
    from a have "url \<noteq> []" by (cases url) simp_all
    with a rt have "onResponseEnd c (Some url) s = deliver (Inl ?err) ?s1"
      by (simp add: onResponseEnd_def truthy_def jsstr_def)
    with a show ?thesis
      by (simp add: deliver_def settle_result_promises settle_def)
  qed
  with rt show ?thesis by simp
qed

text \<open>
  Claim C8, at the input where the code departs from it: the redirect carries the known
  state \<open>state-1\<close>, no \<open>code\<close>, and an \<open>error\<close> parameter that is present and empty
  (\<open>...&error=\<close>), while promise 0 waits. Line 268 tests the parameter for truthiness,
  so the empty string falls through to the end of \<open>_retrieveTokens\<close>: nothing is thrown,
  and the handler fulfils the waiting promise with \<open>undefined\<close>. The claim has the
  exchange fail and the rendezvous rejected.
\<close>

theorem empty_error_falls_through:
  "p_error (callbackParams (login_oidc (redirect_params (Some ''state-1'') None (Some '''') None))
       ''daikinunified://login?state=state-1&error='') = Some ''''
   \<and> retrieveTokens (login_oidc (redirect_params (Some ''state-1'') None (Some '''') None))
         ''daikinunified://login?state=state-1&error='' waiting_session
       = (Inr Undefined, waiting_session)
   \<and> promises (onResponseEnd (login_oidc (redirect_params (Some ''state-1'') None (Some '''') None))
         (Some ''daikinunified://login?state=state-1&error='') waiting_session) ! 0
       = Fulfilled Undefined"
  by (simp add: onResponseEnd_def retrieveTokens_def deliver_def settle_result_def settle_def
        log_line_def login_oidc_def redirect_params_def truthy_def jsstr_def Let_def
        waiting_session_fields)

subsection \<open>Errors of the MITM engine\<close>

text \<open>
  Claim C9. For every error the MITM engine hands to the \<open>onError\<close> handler: when its
  code is \<open>ECONNRESET\<close> or \<open>ERR_SSL_UNSUPPORTED_PROTOCOL\<close> the handler leaves the
  session as it is, so nothing reaches the logger; every other error is handed to the
  configured logger in two lines, the first of which names the URL of the failing request;
  a session without a logger stays silent; and in every case nothing but the log changes,
  so no exception is raised and the session goes on.
\<close>

theorem onError_logs_unless_noise:
  "(err_code e = Some ''ECONNRESET'' \<or> err_code e = Some ''ERR_SSL_UNSUPPORTED_PROTOCOL'' \<longrightarrow>
      onError cx (Some e) s = s)
   \<and> (err_code e \<noteq> Some ''ECONNRESET'' \<and> err_code e \<noteq> Some ''ERR_SSL_UNSUPPORTED_PROTOCOL'' \<longrightarrow>
        (logger (options s) \<longrightarrow>
           (\<forall>x rq. cx = Some x \<and> clientToProxyRequest x = Some rq \<longrightarrow>
              logged (onError cx (Some e) s) = logged s @
                [''Daikin-Cloud: SSL-Proxy ERROR for '' @ req_url rq @ '' : '' @ err_toString e,
                 jsstr (err_code e) @ '': '' @ jsstr (err_stack e)])
           \<and> length (logged (onError cx (Some e) s)) = length (logged s) + 2)
        \<and> (\<not> logger (options s) \<longrightarrow> onError cx (Some e) s = s)
        \<and> onError cx (Some e) s = s\<lparr>logged := logged (onError cx (Some e) s)\<rparr>)"
  by (auto simp: onError_def log_line_def Let_def split: option.splits)

theorem onError_logs_unless_noise_witness:
  "logged (onError (Some token_request) (Some ETIMEDOUT) logging_session)
     = [''Daikin-Cloud: SSL-Proxy ERROR for /token : Error: connect ETIMEDOUT'',
        ''ETIMEDOUT: Error: connect ETIMEDOUT'']
   \<and> onError (Some token_request) (Some ECONNRESET) logging_session = logging_session"
proof -
  have a: "err_code ETIMEDOUT \<noteq> Some ''ECONNRESET''
           \<and> err_code ETIMEDOUT \<noteq> Some ''ERR_SSL_UNSUPPORTED_PROTOCOL''"
    by (simp add: ETIMEDOUT_def)
  have b: "err_code ECONNRESET = Some ''ECONNRESET''
           \<or> err_code ECONNRESET = Some ''ERR_SSL_UNSUPPORTED_PROTOCOL''"
    by (simp add: ECONNRESET_def)
  have l: "logger (options logging_session)" by (simp add: logging_session_fields)
  have t: "err_toString ETIMEDOUT = ''Error: connect ETIMEDOUT''"
    "jsstr (err_code ETIMEDOUT) = ''ETIMEDOUT''"
    "jsstr (err_stack ETIMEDOUT) = ''Error: connect ETIMEDOUT''"
    by (simp_all add: err_toString_def ETIMEDOUT_def jsstr_def)
  show ?thesis
    using a b l t
      onError_logs_unless_noise [of ETIMEDOUT "Some token_request" logging_session]
      onError_logs_unless_noise [of ECONNRESET "Some token_request" logging_session]
    by (simp add: token_request_def logging_session_fields)
qed

end
